theory Spec2Isabelle
  imports Main "HOL-Library.Sublist" "HOL-Library.AList"
begin

section \<open>Python strings\<close>

text \<open>
  A Python \<open>str\<close> is modelled as a \<open>string\<close>, one \<open>char\<close> per character. The case
  functions of \<open>str\<close> are modelled on the ASCII letters; every other character is
  uncased, as the digits, the hyphen and the blank are in Python.
\<close>

definition char_isupper :: "char \<Rightarrow> bool" where
  "char_isupper c = (65 \<le> (of_char c :: nat) \<and> (of_char c :: nat) \<le> 90)"

definition char_islower :: "char \<Rightarrow> bool" where
  "char_islower c = (97 \<le> (of_char c :: nat) \<and> (of_char c :: nat) \<le> 122)"

definition char_lower :: "char \<Rightarrow> char" where
  "char_lower c = (if char_isupper c then char_of ((of_char c :: nat) + 32) else c)"

definition char_upper :: "char \<Rightarrow> char" where
  "char_upper c = (if char_islower c then char_of ((of_char c :: nat) - 32) else c)"

text \<open>\<open>s.lower()\<close>\<close>

definition lower :: "string \<Rightarrow> string" where
  "lower s = map char_lower s"

text \<open>\<open>s.isupper()\<close>: at least one cased character, and no lowercase one.\<close>

definition isupper :: "string \<Rightarrow> bool" where
  "isupper s = (list_ex (\<lambda>c. char_isupper c \<or> char_islower c) s \<and> list_all (\<lambda>c. \<not> char_islower c) s)"

text \<open>\<open>s.capitalize()\<close>: the first character in upper case, the rest in lower case.\<close>

fun capitalize :: "string \<Rightarrow> string" where
  "capitalize [] = []"
| "capitalize (c # cs) = char_upper c # lower cs"

text \<open>\<open>s.startswith(p)\<close> is \<open>prefix p s\<close>, \<open>s.endswith(p)\<close> is \<open>suffix p s\<close> and
  \<open>p in s\<close> is \<open>sublist p s\<close>.\<close>

text \<open>\<open>s.strip(chars)\<close> for the characters satisfying \<open>P\<close>.\<close>

definition strip_where :: "(char \<Rightarrow> bool) \<Rightarrow> string \<Rightarrow> string" where
  "strip_where P s = rev (dropWhile P (rev (dropWhile P s)))"

definition char_isspace :: "char \<Rightarrow> bool" where
  "char_isspace c = ((of_char c :: nat) \<in> {9, 10, 11, 12, 13, 28, 29, 30, 31, 32})"

definition strip :: "string \<Rightarrow> string" where
  "strip s = strip_where char_isspace s"

text \<open>\<open>s.split(sep)\<close> for a separator of one character.\<close>

fun split_char_acc :: "char \<Rightarrow> string \<Rightarrow> string \<Rightarrow> string list" where
  "split_char_acc sep acc [] = [rev acc]"
| "split_char_acc sep acc (c # cs) =
     (if c = sep then rev acc # split_char_acc sep [] cs
      else split_char_acc sep (c # acc) cs)"

definition split_char :: "char \<Rightarrow> string \<Rightarrow> string list" where
  "split_char sep s = split_char_acc sep [] s"

section \<open>Override rules and the context selection\<close>

text \<open>The outcome of \<open>re.search\<close> and \<open>re.fullmatch\<close>: a match, no match, or \<open>re.error\<close>
  for a pattern that does not compile.\<close>

datatype re_result = Matched | NoMatch | ReError

type_synonym regex = "string \<Rightarrow> string \<Rightarrow> re_result"

text \<open>An override rule is the pair \<open>(target_lemma, context_condition)\<close>; the condition
  is \<open>None\<close> or a string.\<close>

type_synonym override_rule = "string \<times> string option"

text \<open>Truth value of a condition, as \<open>if r[1]\<close> tests it: \<open>None\<close> and the empty string
  are false.\<close>

fun truthy :: "string option \<Rightarrow> bool" where
  "truthy None = False"
| "truthy (Some c) = (c \<noteq> [])"

text \<open>The loop of \<open>find_matching_override_in_context\<close> over \<open>rules_with_context\<close>.
  An invalid pattern is reported and the loop goes on.\<close>

fun context_loop :: "regex \<Rightarrow> override_rule list \<Rightarrow> string \<Rightarrow> string option" where
  "context_loop re_search [] context_sentence = None"
| "context_loop re_search ((overridden_lemma, context_condition) # rest) context_sentence =
     (case context_condition of
        None \<Rightarrow> context_loop re_search rest context_sentence
      | Some c \<Rightarrow>
          if c = [] then context_loop re_search rest context_sentence
          else if prefix ''regex:'' c then
            (case re_search (drop 6 c) context_sentence of
               Matched \<Rightarrow> Some overridden_lemma
             | NoMatch \<Rightarrow> context_loop re_search rest context_sentence
             | ReError \<Rightarrow> context_loop re_search rest context_sentence)
          else if sublist c context_sentence then Some overridden_lemma
          else context_loop re_search rest context_sentence)"

text \<open>\<open>rules\<close> is \<open>None\<close> when the dictionary lookup of the caller found no entry.\<close>

definition find_matching_override_in_context ::
  "regex \<Rightarrow> override_rule list option \<Rightarrow> string \<Rightarrow> string option" where
  "find_matching_override_in_context re_search rules context_sentence =
     (case rules of
        None \<Rightarrow> None
      | Some rs \<Rightarrow>
          if rs = [] then None
          else
            let rules_with_context = filter (\<lambda>r. truthy (snd r)) rs;
                rule_without_context = find (\<lambda>r. \<not> truthy (snd r)) rs
            in (case context_loop re_search rules_with_context context_sentence of
                  Some l \<Rightarrow> Some l
                | None \<Rightarrow>
                   (case rule_without_context of
                      Some r \<Rightarrow> Some (fst r)
                    | None \<Rightarrow> None)))"

section \<open>The override cascade\<close>

text \<open>The five tables built by \<open>load_lemma_override_rules\<close>. The regex tables are lists in
  the order of the rule file.\<close>

record override_rules =
  priority1 :: "(string \<times> string) \<rightharpoonup> override_rule list"
  priority1_regex :: "(string \<times> string \<times> override_rule) list"
  priority2 :: "string \<rightharpoonup> override_rule list"
  priority2_regex :: "(string \<times> override_rule) list"
  priority3 :: "string \<rightharpoonup> override_rule list"

text \<open>The loop over \<open>priority1_regex\<close>: a rule is tried when its lemma is the initial
  lemma and its pattern matches the whole of \<open>original_word\<close>; an invalid pattern is
  reported and the loop goes on.\<close>

fun priority1_regex_loop ::
  "regex \<Rightarrow> regex \<Rightarrow> (string \<times> string \<times> override_rule) list \<Rightarrow> string \<Rightarrow> string \<Rightarrow> string
     \<Rightarrow> string option" where
  "priority1_regex_loop re_search re_fullmatch [] initial_lemma original_word context_sentence = None"
| "priority1_regex_loop re_search re_fullmatch ((spacy_lemma_condition, source_word_regex, override_rule) # rest)
       initial_lemma original_word context_sentence =
     (if spacy_lemma_condition = initial_lemma then
        (case re_fullmatch source_word_regex original_word of
           Matched \<Rightarrow>
             (case find_matching_override_in_context re_search (Some [override_rule]) context_sentence of
                Some l \<Rightarrow> Some l
              | None \<Rightarrow> priority1_regex_loop re_search re_fullmatch rest initial_lemma original_word context_sentence)
         | NoMatch \<Rightarrow> priority1_regex_loop re_search re_fullmatch rest initial_lemma original_word context_sentence
         | ReError \<Rightarrow> priority1_regex_loop re_search re_fullmatch rest initial_lemma original_word context_sentence)
      else priority1_regex_loop re_search re_fullmatch rest initial_lemma original_word context_sentence)"

text \<open>The loop over \<open>priority2_regex\<close>; \<open>word\<close> is the original word in the whole-word
  operation and the part in the compound-part operation.\<close>

fun priority2_regex_loop ::
  "regex \<Rightarrow> regex \<Rightarrow> (string \<times> override_rule) list \<Rightarrow> string \<Rightarrow> string \<Rightarrow> string option" where
  "priority2_regex_loop re_search re_fullmatch [] word context_sentence = None"
| "priority2_regex_loop re_search re_fullmatch ((source_word_regex, override_rule) # rest) word context_sentence =
     (case re_fullmatch source_word_regex word of
        Matched \<Rightarrow>
          (case find_matching_override_in_context re_search (Some [override_rule]) context_sentence of
             Some l \<Rightarrow> Some l
           | None \<Rightarrow> priority2_regex_loop re_search re_fullmatch rest word context_sentence)
      | NoMatch \<Rightarrow> priority2_regex_loop re_search re_fullmatch rest word context_sentence
      | ReError \<Rightarrow> priority2_regex_loop re_search re_fullmatch rest word context_sentence)"

definition get_overridden_lemma_for_word ::
  "regex \<Rightarrow> regex \<Rightarrow> string \<Rightarrow> string \<Rightarrow> override_rules \<Rightarrow> string \<Rightarrow> string" where
  "get_overridden_lemma_for_word re_search re_fullmatch initial_lemma original_word rules context_sentence =
     (case find_matching_override_in_context re_search
             (priority1 rules (initial_lemma, original_word)) context_sentence of
        Some matched_lemma1 \<Rightarrow> matched_lemma1
      | None \<Rightarrow>
     (case priority1_regex_loop re_search re_fullmatch (priority1_regex rules)
             initial_lemma original_word context_sentence of
        Some matched_lemma_from_regex1 \<Rightarrow> matched_lemma_from_regex1
      | None \<Rightarrow>
     (case find_matching_override_in_context re_search
             (priority2 rules original_word) context_sentence of
        Some matched_lemma2 \<Rightarrow> matched_lemma2
      | None \<Rightarrow>
     (case priority2_regex_loop re_search re_fullmatch (priority2_regex rules)
             original_word context_sentence of
        Some matched_lemma_from_regex2 \<Rightarrow> matched_lemma_from_regex2
      | None \<Rightarrow>
     (case find_matching_override_in_context re_search
             (priority3 rules initial_lemma) context_sentence of
        Some matched_lemma3 \<Rightarrow> matched_lemma3
      | None \<Rightarrow> initial_lemma)))))"

definition get_overridden_lemma_for_compound_part ::
  "regex \<Rightarrow> regex \<Rightarrow> string \<Rightarrow> string \<Rightarrow> string \<Rightarrow> override_rules \<Rightarrow> string \<Rightarrow> string" where
  "get_overridden_lemma_for_compound_part re_search re_fullmatch initial_lemma part original_word rules
       context_sentence =
     (case find_matching_override_in_context re_search
             (priority1 rules (initial_lemma, original_word)) context_sentence of
        Some matched_lemma1 \<Rightarrow> matched_lemma1
      | None \<Rightarrow>
     (case priority1_regex_loop re_search re_fullmatch (priority1_regex rules)
             initial_lemma original_word context_sentence of
        Some matched_lemma_from_regex1 \<Rightarrow> matched_lemma_from_regex1
      | None \<Rightarrow>
     (case find_matching_override_in_context re_search
             (priority2 rules part) context_sentence of
        Some matched_lemma2 \<Rightarrow> matched_lemma2
      | None \<Rightarrow>
     (case priority2_regex_loop re_search re_fullmatch (priority2_regex rules)
             part context_sentence of
        Some matched_lemma_from_regex2 \<Rightarrow> matched_lemma_from_regex2
      | None \<Rightarrow>
     (case find_matching_override_in_context re_search
             (priority3 rules initial_lemma) context_sentence of
        Some matched_lemma3 \<Rightarrow> matched_lemma3
      | None \<Rightarrow> initial_lemma)))))"

section \<open>Tokens, options and the external collaborators\<close>

text \<open>What the program reads of a spaCy token: \<open>text\<close>, \<open>lemma_\<close>, \<open>pos_\<close>, \<open>dep_\<close>, \<open>i\<close>,
  \<open>head.i\<close>, the flags, and \<open>morph.get("Case", [])\<close>.\<close>

record token =
  tok_text :: string
  tok_lemma :: string
  tok_pos :: string
  tok_dep :: string
  tok_i :: nat
  head_i :: nat
  like_url :: bool
  like_email :: bool
  is_alpha :: bool
  is_sent_start :: bool
  morph_case :: "string list"

text \<open>The options of a run: \<open>nlp.lang\<close>, the command line arguments and the keyword
  arguments of \<open>extract_lemmas_from_sentence\<close>. \<open>gcs_automaton\<close> is the truth value of the
  automaton object.\<close>

record options =
  nlp_lang :: string
  de_gcs :: bool
  gcs_automaton :: bool
  de_gcs_only_nouns :: bool
  de_gcs_combine_noun_modes :: bool
  de_fix_genitive :: bool
  de_gcs_mask_unknown_parts :: bool
  de_gcs_preserve_compound_word :: bool
  de_gcs_skip_merge_fractions :: bool
  de_gcs_part_singularization :: string
  de_force_noun_capitalization :: bool
  force_proper_noun_capitalization :: bool
  de_gcs_pos_tags :: "string list"

datatype exception = Exception string

text \<open>The libraries the program calls: \<open>re.search\<close> and \<open>re.fullmatch\<close>, the analyzer
  \<open>nlp_model\<close> (the tokens of a text), \<open>comp_split.dissect\<close> (word, \<open>make_singular\<close>,
  \<open>only_nouns\<close>, \<open>mask_unknown\<close>) and \<open>comp_split.merge_fractions\<close>, which may raise, and
  the order in which Python iterates over the set built by adding the elements of a
  list one by one.\<close>

record python_env =
  py_re_search :: regex
  py_re_fullmatch :: regex
  nlp_model :: "string \<Rightarrow> token list"
  comp_split_dissect :: "string \<Rightarrow> bool \<Rightarrow> bool \<Rightarrow> bool \<Rightarrow> exception + string list"
  comp_split_merge_fractions :: "string list \<Rightarrow> exception + string list"
  py_set_order :: "string list \<Rightarrow> string list"

text \<open>An iteration over a set visits each element once.\<close>

definition set_order_ok :: "(string list \<Rightarrow> string list) \<Rightarrow> bool" where
  "set_order_ok set_order = (\<forall>xs. set (set_order xs) = set xs \<and> distinct (set_order xs))"

section \<open>Normalisation of a token\<close>

text \<open>\<open>_format_gcs_component_case\<close>\<close>

definition format_gcs_component_case :: "string \<Rightarrow> string" where
  "format_gcs_component_case component =
     (if component = [] \<or> length component < 2 then component
      else take 1 component @ lower (drop 1 component))"

definition noun_tags :: "string list" where
  "noun_tags = [''NOUN'', ''PROPN'']"

definition lemmatize_compound_part :: "string \<Rightarrow> (string \<Rightarrow> token list) \<Rightarrow> string set \<Rightarrow> string" where
  "lemmatize_compound_part part nlp de_dictionary =
     (if part = [] then []
      else
        let is_all_caps = (isupper part \<and> length part > 1);
            has_internal_caps = list_ex char_isupper (drop 1 part)
        in if is_all_caps \<or> has_internal_caps then part
           else
             (case nlp part of
                [] \<Rightarrow> []
              | token # _ \<Rightarrow>
                  if tok_pos token \<notin> set noun_tags then tok_lemma token
                  else
                    let spacy_lemma = capitalize (tok_lemma token);
                        capitalized_part = capitalize part
                    in if spacy_lemma \<in> de_dictionary then spacy_lemma
                       else if capitalized_part \<in> de_dictionary then capitalized_part
                       else spacy_lemma))"

definition correct_spacy_lemma :: "options \<Rightarrow> token \<Rightarrow> string set \<Rightarrow> bool \<Rightarrow> string" where
  "correct_spacy_lemma opts token de_dictionary fix_genitive =
     (let spacy_lemma = tok_lemma token
      in if fix_genitive \<and> nlp_lang opts = ''de'' \<and> tok_pos token \<in> set noun_tags
            \<and> ''Gen'' \<in> set (morph_case token)
         then
           (if suffix ''s'' spacy_lemma \<and> length spacy_lemma > 1 then
              (let lemma_without_genitive_s = butlast spacy_lemma
               in if capitalize lemma_without_genitive_s \<in> de_dictionary
                  then lemma_without_genitive_s
                  else spacy_lemma)
            else spacy_lemma)
         else spacy_lemma)"

definition format_lemma_capitalization :: "options \<Rightarrow> token \<Rightarrow> string \<Rightarrow> string" where
  "format_lemma_capitalization opts token initial_lemma =
     (if like_url token \<or> like_email token then lower initial_lemma
      else
        let source_token_text = tok_text token;
            is_all_caps = (isupper source_token_text \<and> length source_token_text > 1);
            has_internal_caps = list_ex char_isupper (drop 1 source_token_text)
        in if is_all_caps \<or> has_internal_caps then source_token_text
           else if de_force_noun_capitalization opts \<and> nlp_lang opts = ''de''
                   \<and> tok_pos token \<in> set noun_tags
             then capitalize initial_lemma
           else if force_proper_noun_capitalization opts \<and> tok_pos token = ''PROPN''
             then capitalize initial_lemma
           else if is_sent_start token \<and> tok_pos token \<notin> set noun_tags
             then initial_lemma
           else initial_lemma)"

text \<open>\<open>find_separable_verb_particle_pairs\<close>: the dictionary from the index of the governing
  verb to the particle, as a list of pairs; a later particle of the same verb replaces an
  earlier one.\<close>

definition find_separable_verb_particle_pairs :: "token list \<Rightarrow> (nat \<times> token) list" where
  "find_separable_verb_particle_pairs document =
     foldl (\<lambda>particle_map token.
              if tok_dep token = ''svp'' then AList.update (head_i token) token particle_map
              else particle_map)
       [] document"

section \<open>Deduplication of a token's candidates\<close>

text \<open>\<open>lemmas_grouped_by_lowercase\<close> is a dictionary from the lowercased lemma to the set
  of its variants. Python dictionaries keep the order of insertion, so it is a list of
  pairs; a set is kept as the list of the elements added to it.\<close>

fun add_variant :: "string \<Rightarrow> string \<Rightarrow> (string \<times> string list) list \<Rightarrow> (string \<times> string list) list" where
  "add_variant lower_lemma lemma [] = [(lower_lemma, [lemma])]"
| "add_variant lower_lemma lemma ((k, variants) # groups) =
     (if k = lower_lemma then (k, variants @ [lemma]) # groups
      else (k, variants) # add_variant lower_lemma lemma groups)"

definition group_by_lowercase :: "string list \<Rightarrow> (string \<times> string list) list" where
  "group_by_lowercase candidate_lemmas =
     foldl (\<lambda>groups lemma. if lemma = [] then groups else add_variant (lower lemma) lemma groups)
       [] candidate_lemmas"

text \<open>\<open>v[0].isupper()\<close>; the variants are not empty, since the empty lemmas were skipped.\<close>

fun starts_upper :: "string \<Rightarrow> bool" where
  "starts_upper [] = False"
| "starts_upper (c # cs) = char_isupper c"

text \<open>The lemma kept for one group: the first variant of the iteration that starts in
  upper case, else the first variant of the iteration.\<close>

definition choose_variant :: "(string list \<Rightarrow> string list) \<Rightarrow> string list \<Rightarrow> string list" where
  "choose_variant set_order capitalization_variants =
     (let vs = set_order capitalization_variants;
          first_variant = (case vs of [] \<Rightarrow> [] | v # _ \<Rightarrow> [v])
      in case find starts_upper vs of
           Some capitalized_variant \<Rightarrow>
             if capitalized_variant \<noteq> [] then [capitalized_variant] else first_variant
         | None \<Rightarrow> first_variant)"

definition deduplicate_lemmas :: "(string list \<Rightarrow> string list) \<Rightarrow> string list \<Rightarrow> string list" where
  "deduplicate_lemmas set_order candidate_lemmas =
     concat (map (\<lambda>(k, capitalization_variants). choose_variant set_order capitalization_variants)
               (group_by_lowercase candidate_lemmas))"

section \<open>The candidates of a token\<close>

text \<open>The default lemma and the word form of a token, and the base lemma that the
  whole-word override gives. \<open>particle\<close> is the entry of the token in the separable
  verb map.\<close>

definition default_lemma_and_form :: "options \<Rightarrow> string set \<Rightarrow> token option \<Rightarrow> token \<Rightarrow> string \<times> string" where
  "default_lemma_and_form opts de_dictionary particle token =
     (case particle of
        Some p \<Rightarrow> (lower (lower (tok_text p) @ tok_lemma token), tok_text token @ '' '' @ tok_text p)
      | None \<Rightarrow>
          (let spacy_lemma = correct_spacy_lemma opts token de_dictionary (de_fix_genitive opts)
           in (format_lemma_capitalization opts token spacy_lemma, tok_text token)))"

definition token_base_lemma ::
  "python_env \<Rightarrow> options \<Rightarrow> string set \<Rightarrow> override_rules \<Rightarrow> string \<Rightarrow> token option \<Rightarrow> token \<Rightarrow> string" where
  "token_base_lemma env opts de_dictionary rules sentence_text particle token =
     (let (default_lemma, source_word_form) = default_lemma_and_form opts de_dictionary particle token
      in get_overridden_lemma_for_word (py_re_search env) (py_re_fullmatch env)
           default_lemma source_word_form rules sentence_text)"

text \<open>The lemmas that the loop over the hyphenated parts appends.\<close>

definition hyphen_part_lemmas ::
  "python_env \<Rightarrow> string set \<Rightarrow> override_rules \<Rightarrow> string \<Rightarrow> token \<Rightarrow> string list" where
  "hyphen_part_lemmas env de_dictionary rules sentence_text token =
     concat (map
       (\<lambda>hyphenated_part.
          let part = strip hyphenated_part
          in if part = [] \<or> length part \<le> 1 then []
             else
               let initial_part_lemma = lemmatize_compound_part part (nlp_model env) de_dictionary;
                   processed_part_lemma =
                     get_overridden_lemma_for_compound_part (py_re_search env) (py_re_fullmatch env)
                       initial_part_lemma part (tok_text token) rules sentence_text
               in if processed_part_lemma \<noteq> [] then [processed_part_lemma] else [])
       (split_char CHR ''-'' (tok_text token)))"

text \<open>The calls of the decomposer inside the \<open>try\<close>: the first one that raises ends the
  block.\<close>

definition gcs_split_components :: "python_env \<Rightarrow> options \<Rightarrow> token \<Rightarrow> exception + string list" where
  "gcs_split_components env opts token =
     (let word_to_split = tok_text token;
          make_singular_flag =
            (if de_gcs_part_singularization opts = ''none'' then False
             else if de_gcs_part_singularization opts = ''all'' then True
             else tok_pos token \<in> set noun_tags);
          mask = de_gcs_mask_unknown_parts opts
      in if de_gcs_combine_noun_modes opts then
           (case comp_split_dissect env word_to_split make_singular_flag True mask of
              Inl e \<Rightarrow> Inl e
            | Inr dissection1 \<Rightarrow>
           (case comp_split_merge_fractions env dissection1 of
              Inl e \<Rightarrow> Inl e
            | Inr merged1 \<Rightarrow>
           (case comp_split_dissect env word_to_split make_singular_flag False mask of
              Inl e \<Rightarrow> Inl e
            | Inr dissection2 \<Rightarrow>
           (case comp_split_merge_fractions env dissection2 of
              Inl e \<Rightarrow> Inl e
            | Inr merged2 \<Rightarrow>
                if de_gcs_skip_merge_fractions opts
                then Inr (merged1 @ merged2 @ dissection1 @ dissection2)
                else
                  (case comp_split_merge_fractions env dissection1 of
                     Inl e \<Rightarrow> Inl e
                   | Inr merged1' \<Rightarrow>
                  (case comp_split_merge_fractions env dissection2 of
                     Inl e \<Rightarrow> Inl e
                   | Inr merged2' \<Rightarrow> Inr (merged1 @ merged2 @ merged1' @ merged2')))))))
         else
           (case comp_split_dissect env word_to_split make_singular_flag (de_gcs_only_nouns opts) mask of
              Inl e \<Rightarrow> Inl e
            | Inr dissection \<Rightarrow>
                if de_gcs_skip_merge_fractions opts then Inr dissection
                else comp_split_merge_fractions env dissection))"

text \<open>The lemmas that the loop over \<open>set(split_components)\<close> appends.\<close>

definition gcs_part_lemmas ::
  "python_env \<Rightarrow> string set \<Rightarrow> override_rules \<Rightarrow> string \<Rightarrow> token \<Rightarrow> string list \<Rightarrow> string list" where
  "gcs_part_lemmas env de_dictionary rules sentence_text token split_components =
     concat (map
       (\<lambda>raw_component.
          let component = strip_where (\<lambda>c. c = CHR ''-'') raw_component
          in if component = [] \<or> length component < 3 then []
             else
               let initial_part_lemma = lemmatize_compound_part component (nlp_model env) de_dictionary;
                   overridden_part_lemma =
                     get_overridden_lemma_for_compound_part (py_re_search env) (py_re_fullmatch env)
                       initial_part_lemma component (tok_text token) rules sentence_text;
                   processed_part_lemma = format_gcs_component_case overridden_part_lemma
               in if processed_part_lemma \<noteq> [] then [processed_part_lemma] else [])
       (py_set_order env split_components))"

definition is_special_token :: "token \<Rightarrow> bool" where
  "is_special_token token = (like_url token \<or> like_email token)"

text \<open>The condition of the hyphen branch and the condition of the automaton branch, which
  is tested only when the first one fails.\<close>

definition hyphen_split_applies :: "options \<Rightarrow> token \<Rightarrow> bool" where
  "hyphen_split_applies opts token =
     (de_gcs opts \<and> CHR ''-'' \<in> set (tok_text token) \<and> \<not> is_special_token token)"

definition automaton_split_applies :: "options \<Rightarrow> token \<Rightarrow> bool" where
  "automaton_split_applies opts token =
     (de_gcs opts \<and> gcs_automaton opts \<and> nlp_lang opts = ''de'' \<and> \<not> is_special_token token
      \<and> length (tok_text token) > 3 \<and> tok_pos token \<in> set (de_gcs_pos_tags opts))"

text \<open>The body of the loop of \<open>extract_lemmas_from_sentence\<close> for one token, up to the
  call of \<open>deduplicate_lemmas\<close>: the pair of \<open>was_split\<close> and \<open>lemmas_for_current_token\<close>
  after the two branches, and the list after the fallback. An exception of the
  decomposer is raised before anything is appended in the \<open>try\<close>.\<close>

definition split_token ::
  "python_env \<Rightarrow> options \<Rightarrow> string set \<Rightarrow> override_rules \<Rightarrow> string \<Rightarrow> string \<Rightarrow> token
     \<Rightarrow> bool \<times> string list" where
  "split_token env opts de_dictionary rules sentence_text base_lemma token =
     (let preserved = (if de_gcs_preserve_compound_word opts then [base_lemma] else [])
      in if hyphen_split_applies opts token then
           (True, preserved @ hyphen_part_lemmas env de_dictionary rules sentence_text token)
         else if automaton_split_applies opts token then
           (case gcs_split_components env opts token of
              Inl e \<Rightarrow> (False, [])
            | Inr split_components \<Rightarrow>
                if length split_components > 1 then
                  (True, preserved
                         @ gcs_part_lemmas env de_dictionary rules sentence_text token split_components)
                else (False, []))
         else (False, []))"

definition lemmas_for_current_token ::
  "python_env \<Rightarrow> options \<Rightarrow> string set \<Rightarrow> override_rules \<Rightarrow> string \<Rightarrow> token option \<Rightarrow> token
     \<Rightarrow> string list" where
  "lemmas_for_current_token env opts de_dictionary rules sentence_text particle token =
     (let base_lemma = token_base_lemma env opts de_dictionary rules sentence_text particle token;
          (was_split, lemmas) = split_token env opts de_dictionary rules sentence_text base_lemma token
      in if \<not> was_split then lemmas @ [base_lemma] else lemmas)"

text \<open>The tokens that the loop processes: not a particle of a separable verb, and
  alphabetic or with a hyphen.\<close>

definition is_processed :: "(nat \<times> token) list \<Rightarrow> token \<Rightarrow> bool" where
  "is_processed separable_verb_map token =
     (tok_i token \<notin> set (map (\<lambda>(verb_i, p). tok_i p) separable_verb_map)
      \<and> (is_alpha token \<or> CHR ''-'' \<in> set (tok_text token)))"

text \<open>The candidates of the tokens of a sentence that the loop processes, in the order of
  the sentence.\<close>

definition sentence_candidates ::
  "python_env \<Rightarrow> options \<Rightarrow> string set \<Rightarrow> override_rules \<Rightarrow> string \<Rightarrow> string list list" where
  "sentence_candidates env opts de_dictionary rules sentence_text =
     (let sentence_doc = nlp_model env sentence_text;
          separable_verb_map = find_separable_verb_particle_pairs sentence_doc
      in map (\<lambda>token. lemmas_for_current_token env opts de_dictionary rules sentence_text
                         (map_of separable_verb_map (tok_i token)) token)
           (filter (is_processed separable_verb_map) sentence_doc))"

section \<open>The accumulated vocabulary\<close>

text \<open>\<open>lemma_to_shortest_form\<close> and \<open>lemma_to_sentence_info\<close>, and the loop at the end of
  the token loop of \<open>process_single_text\<close> and \<open>process_parallel_text_files\<close>.\<close>

record 'loc vocabulary =
  lemma_to_shortest_form :: "string \<rightharpoonup> string"
  lemma_to_sentence_info :: "string \<rightharpoonup> 'loc"

definition merge_lemma :: "string \<Rightarrow> 'loc \<Rightarrow> 'loc vocabulary \<Rightarrow> string \<Rightarrow> 'loc vocabulary" where
  "merge_lemma source_word_form location vocab lemma =
     (if lemma \<noteq> [] then
        (case lemma_to_shortest_form vocab lemma of
           None \<Rightarrow>
             vocab\<lparr>lemma_to_shortest_form := (lemma_to_shortest_form vocab)(lemma \<mapsto> source_word_form),
                   lemma_to_sentence_info := (lemma_to_sentence_info vocab)(lemma \<mapsto> location)\<rparr>
         | Some shortest \<Rightarrow>
             if length source_word_form < length shortest
             then vocab\<lparr>lemma_to_shortest_form := (lemma_to_shortest_form vocab)(lemma \<mapsto> source_word_form)\<rparr>
             else vocab)
      else vocab)"

text \<open>One step per token: its deduplicated lemmas, its word form, and the unit it stands in.\<close>

definition merge_token :: "'loc vocabulary \<Rightarrow> string list \<times> string \<times> 'loc \<Rightarrow> 'loc vocabulary" where
  "merge_token vocab step =
     (case step of (deduplicated_lemmas, source_word_form, location) \<Rightarrow>
        foldl (merge_lemma source_word_form location) vocab deduplicated_lemmas)"

definition merge_tokens :: "'loc vocabulary \<Rightarrow> (string list \<times> string \<times> 'loc) list \<Rightarrow> 'loc vocabulary" where
  "merge_tokens vocab steps = foldl merge_token vocab steps"

section \<open>The specification's reading of the selection and of the cascade\<close>

text \<open>A rule is context-conditioned and its condition matches the sentence: a condition
  that starts with \<open>regex:\<close> by a search of the rest of it anywhere in the sentence, any
  other condition by the substring test.\<close>

fun rule_matches :: "regex \<Rightarrow> string \<Rightarrow> override_rule \<Rightarrow> bool" where
  "rule_matches re_search sentence (target_lemma, None) = False"
| "rule_matches re_search sentence (target_lemma, Some c) =
     (c \<noteq> [] \<and> (if prefix ''regex:'' c then re_search (drop 6 c) sentence = Matched
                else sublist c sentence))"

text \<open>The cascade of the specification: the first tier that produces a match wins, and
  without a match the initial lemma is returned.\<close>

fun spec_cascade :: "string option list \<Rightarrow> string \<Rightarrow> string" where
  "spec_cascade [] initial_lemma = initial_lemma"
| "spec_cascade (Some target_lemma # tiers) initial_lemma = target_lemma"
| "spec_cascade (None # tiers) initial_lemma = spec_cascade tiers initial_lemma"

fun first_some :: "'a option list \<Rightarrow> 'a option" where
  "first_some [] = None"
| "first_some (Some x # xs) = Some x"
| "first_some (None # xs) = first_some xs"

text \<open>The five tiers of the specification. A regex tier takes the rules of its table in
  the order of the rule file and runs the context selection on each rule whose pattern
  matches the whole word.\<close>

definition spec_tier_exact_lemma_word ::
  "regex \<Rightarrow> override_rules \<Rightarrow> string \<Rightarrow> string \<Rightarrow> string \<Rightarrow> string option" where
  "spec_tier_exact_lemma_word re_search rules initial_lemma original_word sentence =
     find_matching_override_in_context re_search (priority1 rules (initial_lemma, original_word)) sentence"

definition spec_tier_regex_lemma_word ::
  "regex \<Rightarrow> regex \<Rightarrow> override_rules \<Rightarrow> string \<Rightarrow> string \<Rightarrow> string \<Rightarrow> string option" where
  "spec_tier_regex_lemma_word re_search re_fullmatch rules initial_lemma original_word sentence =
     first_some (map (\<lambda>(lemma_match, word_pattern, rule).
         if lemma_match = initial_lemma \<and> re_fullmatch word_pattern original_word = Matched
         then find_matching_override_in_context re_search (Some [rule]) sentence else None)
       (priority1_regex rules))"

definition spec_tier_exact_word :: "regex \<Rightarrow> override_rules \<Rightarrow> string \<Rightarrow> string \<Rightarrow> string option" where
  "spec_tier_exact_word re_search rules word_or_part sentence =
     find_matching_override_in_context re_search (priority2 rules word_or_part) sentence"

definition spec_tier_regex_word ::
  "regex \<Rightarrow> regex \<Rightarrow> override_rules \<Rightarrow> string \<Rightarrow> string \<Rightarrow> string option" where
  "spec_tier_regex_word re_search re_fullmatch rules word_or_part sentence =
     first_some (map (\<lambda>(word_pattern, rule).
         if re_fullmatch word_pattern word_or_part = Matched
         then find_matching_override_in_context re_search (Some [rule]) sentence else None)
       (priority2_regex rules))"

definition spec_tier_exact_lemma :: "regex \<Rightarrow> override_rules \<Rightarrow> string \<Rightarrow> string \<Rightarrow> string option" where
  "spec_tier_exact_lemma re_search rules initial_lemma sentence =
     find_matching_override_in_context re_search (priority3 rules initial_lemma) sentence"

text \<open>The lemma of a component of the automaton split before its case is normalised:
  the component without its boundary hyphens, lemmatized and resolved as a compound
  part.\<close>

definition resolved_component ::
  "python_env \<Rightarrow> string set \<Rightarrow> override_rules \<Rightarrow> string \<Rightarrow> token \<Rightarrow> string \<Rightarrow> string" where
  "resolved_component env de_dictionary rules sentence_text token raw_component =
     (let component = strip_where (\<lambda>c. c = CHR ''-'') raw_component
      in get_overridden_lemma_for_compound_part (py_re_search env) (py_re_fullmatch env)
           (lemmatize_compound_part component (nlp_model env) de_dictionary)
           component (tok_text token) rules sentence_text)"

section \<open>Concrete inputs\<close>

text \<open>A regex engine for patterns without metacharacters: the pattern stands for itself,
  and the pattern \<open>(\<close> does not compile.\<close>

definition literal_search :: regex where
  "literal_search pattern s =
     (if pattern = ''('' then ReError else if sublist pattern s then Matched else NoMatch)"

definition literal_fullmatch :: regex where
  "literal_fullmatch pattern s =
     (if pattern = ''('' then ReError else if pattern = s then Matched else NoMatch)"

definition no_rules :: override_rules where
  "no_rules = \<lparr>priority1 = Map.empty, priority1_regex = [], priority2 = Map.empty,
                priority2_regex = [], priority3 = Map.empty\<rparr>"

text \<open>The tables of a rule file with the rows
  \<^verbatim>\<open>gehen<TAB>ging<TAB>gehen\<close>, \<^verbatim>\<open><TAB>Shop<TAB>Laden\<close>, \<^verbatim>\<open><TAB>regex:Online<TAB>online\<close> and
  \<^verbatim>\<open>Bank<TAB><TAB>Sitzbank<TAB>Park\<close>.\<close>

definition example_rules :: override_rules where
  "example_rules =
     \<lparr>priority1 = [(''gehen'', ''ging'') \<mapsto> [(''gehen'', None)]],
      priority1_regex = [],
      priority2 = [''Shop'' \<mapsto> [(''Laden'', None)]],
      priority2_regex = [(''Online'', (''online'', None))],
      priority3 = [''Bank'' \<mapsto> [(''Sitzbank'', Some ''Park'')]]\<rparr>"

text \<open>The options of a German run with the genitive correction and the decomposition
  switched on, and a token of a sentence that is no URL and no e-mail address.\<close>

definition german_options :: options where
  "german_options =
     \<lparr>nlp_lang = ''de'', de_gcs = True, gcs_automaton = True, de_gcs_only_nouns = True,
      de_gcs_combine_noun_modes = False, de_fix_genitive = True,
      de_gcs_mask_unknown_parts = False, de_gcs_preserve_compound_word = False,
      de_gcs_skip_merge_fractions = False, de_gcs_part_singularization = ''nouns'',
      de_force_noun_capitalization = False, force_proper_noun_capitalization = False,
      de_gcs_pos_tags = [''NOUN'', ''PROPN'']\<rparr>"

definition word_token :: "string \<Rightarrow> string \<Rightarrow> string \<Rightarrow> string list \<Rightarrow> token" where
  "word_token text lemma pos cases =
     \<lparr>tok_text = text, tok_lemma = lemma, tok_pos = pos, tok_dep = ''ROOT'', tok_i = 0, head_i = 0,
      like_url = False, like_email = False,
      is_alpha = list_all (\<lambda>c. char_isupper c \<or> char_islower c) text,
      is_sent_start = False, morph_case = cases\<rparr>"

definition empty_vocabulary :: "(nat \<times> string) vocabulary" where
  "empty_vocabulary = \<lparr>lemma_to_shortest_form = Map.empty, lemma_to_sentence_info = Map.empty\<rparr>"

text \<open>An analyzer for single words: \<open>Laufen\<close> is a verb with the lemma \<open>laufen\<close>, any other
  word is a noun that is its own lemma. A decomposer that splits \<open>Weglaufen\<close> and
  \<open>Hausboot\<close>, raises on \<open>Hausboot\<close> in the unrestricted mode, and leaves any other word
  whole. Sets are iterated in the order of insertion.\<close>

definition example_nlp :: "string \<Rightarrow> token list" where
  "example_nlp text =
     (if text = ''Laufen'' then [word_token text ''laufen'' ''VERB'' []]
      else [word_token text text ''NOUN'' []])"

definition example_dissect :: "string \<Rightarrow> bool \<Rightarrow> bool \<Rightarrow> bool \<Rightarrow> exception + string list" where
  "example_dissect word make_singular only_nouns mask_unknown =
     (if word = ''Weglaufen'' then Inr [''Weg'', ''Laufen'']
      else if word = ''Hausboot'' then
        (if only_nouns then Inr [''Haus'', ''Boot''] else Inl (Exception ''dissect''))
      else Inr [word])"

definition example_env :: python_env where
  "example_env =
     \<lparr>py_re_search = literal_search, py_re_fullmatch = literal_fullmatch,
      nlp_model = example_nlp, comp_split_dissect = example_dissect,
      comp_split_merge_fractions = Inr, py_set_order = remdups\<rparr>"

section \<open>Notions for the proofs about the deduplication\<close>

text \<open>The groups are well formed when
  their keys are distinct and every group is a non-empty list of non-empty lemmas whose
  lowercased form is the key; the lemmas held by the groups; one step of the grouping
  loop; and the lemma kept for a group.\<close>

definition groups_ok :: "(string \<times> string list) list \<Rightarrow> bool" where
  "groups_ok g = (distinct (map fst g)
     \<and> (\<forall>(k, vs) \<in> set g. vs \<noteq> [] \<and> (\<forall>v \<in> set vs. v \<noteq> [] \<and> lower v = k)))"

fun members :: "(string \<times> string list) list \<Rightarrow> string set" where
  "members [] = {}"
| "members ((k, vs) # g) = set vs \<union> members g"

definition group_step :: "(string \<times> string list) list \<Rightarrow> string \<Rightarrow> (string \<times> string list) list" where
  "group_step groups lemma = (if lemma = [] then groups else add_variant (lower lemma) lemma groups)"

definition representative :: "(string list \<Rightarrow> string list) \<Rightarrow> string \<times> string list \<Rightarrow> string" where
  "representative so g = hd (choose_variant so (snd g))"

section \<open>Evaluation of the character functions\<close>

text \<open>The equations that evaluate the case functions on a concrete string.\<close>

lemmas char_eval =
  lower_def char_upper_def char_lower_def char_islower_def char_isupper_def char_of_def
  bit_Suc_0_iff

section \<open>The context selection\<close>

lemma context_loop_find:
  "context_loop re_search rs s = map_option fst (find (rule_matches re_search s) rs)"
  by (induction re_search rs s rule: context_loop.induct)
     (auto split: option.splits re_result.splits)

lemma rule_matches_truthy: "rule_matches re_search s r \<Longrightarrow> truthy (snd r)"
  by (cases r; cases "snd r") auto

lemma find_rule_matches_filter:
  "find (rule_matches re_search s) (filter (\<lambda>r. truthy (snd r)) rs) = find (rule_matches re_search s) rs"
  by (induction rs) (auto dest: rule_matches_truthy)

lemma find_filter_hd: "find P rs = (case filter P rs of [] \<Rightarrow> None | r # _ \<Rightarrow> Some r)"
  by (induction rs) auto

text \<open>
  C1, as the code has it. The conditioned entries are tried in the order of the list and
  the first whose condition matches gives its target lemma. When none matches, the
  target lemma of the first unconditioned entry is returned, whether the list has one
  unconditioned entry or several; there is no result only when it has none.
\<close>

theorem find_matching_override_in_context_selects:
  "find_matching_override_in_context re_search (Some rules) sentence =
     (case find (rule_matches re_search sentence) rules of
        Some r \<Rightarrow> Some (fst r)
      | None \<Rightarrow>
          (case filter (\<lambda>r. \<not> truthy (snd r)) rules of
             [] \<Rightarrow> None
           | r # _ \<Rightarrow> Some (fst r)))"
proof (cases rules)
  case Nil
  then show ?thesis by (simp add: find_matching_override_in_context_def)
next
  case (Cons r rs)
  have "find (\<lambda>r. \<not> truthy (snd r)) rules =
          (case filter (\<lambda>r. \<not> truthy (snd r)) rules of [] \<Rightarrow> None | r # _ \<Rightarrow> Some r)"
    by (rule find_filter_hd)
  with Cons show ?thesis
    by (auto simp: find_matching_override_in_context_def context_loop_find
          find_rule_matches_filter Let_def split: option.splits list.splits
          dest: rule_matches_truthy)
qed

theorem find_matching_override_in_context_selects_witness:
  "find_matching_override_in_context literal_search
     (Some [(''A'', None), (''B'', Some ''regex:(''), (''C'', Some ''Haus''), (''D'', Some ''Er'')])
     ''Er geht nach Hause'' = Some ''C''
   \<and> find_matching_override_in_context literal_search
     (Some [(''A'', None), (''B'', Some ''regex:(''), (''C'', Some ''Maus'')])
     ''Er geht nach Hause'' = Some ''A''"
  using find_matching_override_in_context_selects [of literal_search
          "[(''A'', None), (''B'', Some ''regex:(''), (''C'', Some ''Haus''), (''D'', Some ''Er'')]"
          "''Er geht nach Hause''"]
        find_matching_override_in_context_selects [of literal_search
          "[(''A'', None), (''B'', Some ''regex:(''), (''C'', Some ''Maus'')]"
          "''Er geht nach Hause''"]
  by (simp add: literal_search_def sublist_code)

text \<open>
  C1 as stated fails: with two unconditioned entries and no conditioned one the tier
  still yields a result, the target lemma of the first.
\<close>

theorem two_unconditioned_entries_counterexample:
  "length (filter (\<lambda>r. \<not> truthy (snd r)) [(''A'', None), (''B'', None)]) = 2
   \<and> find_matching_override_in_context literal_search (Some [(''A'', None), (''B'', None)])
       ''Er geht nach Hause'' = Some ''A''"
  by (simp add: find_matching_override_in_context_def)

section \<open>The cascade\<close>

lemma priority1_regex_loop_first_some:
  "priority1_regex_loop re_search re_fullmatch rs initial_lemma original_word sentence =
     first_some (map (\<lambda>(lemma_match, word_pattern, rule).
         if lemma_match = initial_lemma \<and> re_fullmatch word_pattern original_word = Matched
         then find_matching_override_in_context re_search (Some [rule]) sentence else None) rs)"
  by (induction re_search re_fullmatch rs initial_lemma original_word sentence
        rule: priority1_regex_loop.induct)
     (auto split: re_result.splits option.splits)

lemma priority2_regex_loop_first_some:
  "priority2_regex_loop re_search re_fullmatch rs word sentence =
     first_some (map (\<lambda>(word_pattern, rule).
         if re_fullmatch word_pattern word = Matched
         then find_matching_override_in_context re_search (Some [rule]) sentence else None) rs)"
  by (induction re_search re_fullmatch rs word sentence rule: priority2_regex_loop.induct)
     (auto split: re_result.splits option.splits)

lemmas spec_tier_defs =
  spec_tier_exact_lemma_word_def spec_tier_regex_lemma_word_def spec_tier_exact_word_def
  spec_tier_regex_word_def spec_tier_exact_lemma_def

text \<open>
  C3. Both operations are the cascade of the five tiers in the fixed order, with the
  initial lemma as the result when no tier matches. The tiers of the pair (lemma, word)
  and of the regex gated by the lemma take the full original word in both operations, the
  tier of the lemma alone takes the initial lemma in both, and the two word tiers take
  the original word in the whole-word operation and the part in the compound-part
  operation.
\<close>

theorem override_cascade_order:
  "get_overridden_lemma_for_word re_search re_fullmatch initial_lemma original_word rules sentence =
     spec_cascade
       [spec_tier_exact_lemma_word re_search rules initial_lemma original_word sentence,
        spec_tier_regex_lemma_word re_search re_fullmatch rules initial_lemma original_word sentence,
        spec_tier_exact_word re_search rules original_word sentence,
        spec_tier_regex_word re_search re_fullmatch rules original_word sentence,
        spec_tier_exact_lemma re_search rules initial_lemma sentence]
       initial_lemma
   \<and> get_overridden_lemma_for_compound_part re_search re_fullmatch initial_lemma part original_word
       rules sentence =
     spec_cascade
       [spec_tier_exact_lemma_word re_search rules initial_lemma original_word sentence,
        spec_tier_regex_lemma_word re_search re_fullmatch rules initial_lemma original_word sentence,
        spec_tier_exact_word re_search rules part sentence,
        spec_tier_regex_word re_search re_fullmatch rules part sentence,
        spec_tier_exact_lemma re_search rules initial_lemma sentence]
       initial_lemma"
  unfolding get_overridden_lemma_for_word_def get_overridden_lemma_for_compound_part_def
    spec_tier_defs priority1_regex_loop_first_some priority2_regex_loop_first_some
  by (simp split: option.splits)

theorem override_cascade_order_witness:
  "get_overridden_lemma_for_word literal_search literal_fullmatch ''Online-Shop'' ''Online-Shop''
     example_rules ''Der Online-Shop ist neu'' = ''Online-Shop''
   \<and> get_overridden_lemma_for_compound_part literal_search literal_fullmatch ''Shop'' ''Shop''
       ''Online-Shop'' example_rules ''Der Online-Shop ist neu'' = ''Laden''"
  using override_cascade_order [of literal_search literal_fullmatch "''Online-Shop''"
          "''Online-Shop''" example_rules "''Der Online-Shop ist neu''"]
        override_cascade_order [of literal_search literal_fullmatch "''Shop''"
          "''Online-Shop''" example_rules "''Der Online-Shop ist neu''" "''Shop''"]
  by (simp add: spec_tier_defs example_rules_def literal_fullmatch_def
        find_matching_override_in_context_def)

text \<open>
  C10. When the part is the full original word, the compound-part operation returns what
  the whole-word operation returns.
\<close>

theorem word_is_compound_part_of_itself:
  "get_overridden_lemma_for_word re_search re_fullmatch initial_lemma original_word rules sentence =
   get_overridden_lemma_for_compound_part re_search re_fullmatch initial_lemma original_word
     original_word rules sentence"
  by (simp add: get_overridden_lemma_for_word_def get_overridden_lemma_for_compound_part_def)

section \<open>The genitive correction\<close>

text \<open>
  C4, as the code has it. For a German noun or proper noun with a genitive case marker,
  with the correction enabled, a lemma of more than one character that ends in \<open>s\<close> and
  whose trimmed form, capitalized, is in the dictionary, the correction returns the
  lemma without its last character, in the case the analyzer gave it: the capitalized
  form is only looked up.
\<close>

theorem correct_spacy_lemma_trims_genitive_s:
  assumes "fix_genitive" and "nlp_lang opts = ''de''"
    and "tok_pos token = ''NOUN'' \<or> tok_pos token = ''PROPN''"
    and "''Gen'' \<in> set (morph_case token)"
    and "suffix ''s'' (tok_lemma token)" and "length (tok_lemma token) > 1"
    and "capitalize (butlast (tok_lemma token)) \<in> de_dictionary"
  shows "correct_spacy_lemma opts token de_dictionary fix_genitive = butlast (tok_lemma token)"
  using assms by (auto simp: correct_spacy_lemma_def noun_tags_def Let_def)

theorem correct_spacy_lemma_trims_genitive_s_witness:
  "correct_spacy_lemma german_options (word_token ''Vaters'' ''Vaters'' ''NOUN'' [''Gen''])
     {''Vater''} True = ''Vater''"
  using correct_spacy_lemma_trims_genitive_s
          [of True german_options "word_token ''Vaters'' ''Vaters'' ''NOUN'' [''Gen'']" "{''Vater''}"]
  by (simp add: german_options_def word_token_def suffix_def char_eval)

text \<open>
  C4 as stated fails: for the lemma \<open>abends\<close> of a token tagged as a genitive noun, with
  \<open>Abend\<close> in the dictionary, the correction returns \<open>abend\<close>, which is not the capitalized
  form \<open>Abend\<close>.
\<close>

theorem genitive_lemma_not_capitalized_counterexample:
  "nlp_lang german_options = ''de''
   \<and> tok_pos (word_token ''abends'' ''abends'' ''NOUN'' [''Gen'']) = ''NOUN''
   \<and> ''Gen'' \<in> set (morph_case (word_token ''abends'' ''abends'' ''NOUN'' [''Gen'']))
   \<and> suffix ''s'' ''abends''
   \<and> capitalize (butlast ''abends'') = ''Abend''
   \<and> correct_spacy_lemma german_options (word_token ''abends'' ''abends'' ''NOUN'' [''Gen''])
        {''Abend''} True = ''abend''"
  by (simp add: correct_spacy_lemma_def noun_tags_def german_options_def word_token_def
        suffix_def char_eval)

section \<open>The invariant of the accumulated vocabulary\<close>

lemma merge_lemma_keeps:
  assumes "lemma_to_shortest_form vocab l = Some f"
  shows "lemma_to_sentence_info (merge_lemma w loc vocab x) l = lemma_to_sentence_info vocab l
       \<and> (\<exists>f'. lemma_to_shortest_form (merge_lemma w loc vocab x) l = Some f'
              \<and> (f' = f \<or> length f' < length f))"
  using assms by (auto simp: merge_lemma_def split: option.splits)

lemma merge_lemmas_keep:
  assumes "lemma_to_shortest_form vocab l = Some f"
  shows "lemma_to_sentence_info (foldl (merge_lemma w loc) vocab xs) l = lemma_to_sentence_info vocab l
       \<and> (\<exists>f'. lemma_to_shortest_form (foldl (merge_lemma w loc) vocab xs) l = Some f'
              \<and> (f' = f \<or> length f' < length f))"
  using assms
proof (induction xs arbitrary: vocab f)
  case Nil
  then show ?case by simp
next
  case (Cons x xs)
  from merge_lemma_keeps [OF Cons.prems, of w loc x] obtain f1 where
    i1: "lemma_to_sentence_info (merge_lemma w loc vocab x) l = lemma_to_sentence_info vocab l"
    and s1: "lemma_to_shortest_form (merge_lemma w loc vocab x) l = Some f1"
    and l1: "f1 = f \<or> length f1 < length f" by blast
  from Cons.IH [OF s1] obtain f2 where
    i2: "lemma_to_sentence_info (foldl (merge_lemma w loc) (merge_lemma w loc vocab x) xs) l
           = lemma_to_sentence_info (merge_lemma w loc vocab x) l"
    and s2: "lemma_to_shortest_form (foldl (merge_lemma w loc) (merge_lemma w loc vocab x) xs) l = Some f2"
    and l2: "f2 = f1 \<or> length f2 < length f1" by blast
  from l1 l2 have "f2 = f \<or> length f2 < length f" by auto
  with i1 i2 s2 show ?case by simp
qed

lemma merge_token_keeps:
  assumes "lemma_to_shortest_form vocab l = Some f"
  shows "lemma_to_sentence_info (merge_token vocab step) l = lemma_to_sentence_info vocab l
       \<and> (\<exists>f'. lemma_to_shortest_form (merge_token vocab step) l = Some f'
              \<and> (f' = f \<or> length f' < length f))"
  using merge_lemmas_keep [OF assms] by (cases step) (simp add: merge_token_def)

text \<open>
  C9. Take the vocabulary at any moment and a lemma that it holds with the surface form
  \<open>form\<close>. After any further token steps the lemma is still held, its location is the one
  recorded before, and its surface form is \<open>form\<close> or a strictly shorter one.
\<close>

theorem vocabulary_location_fixed_form_shrinks:
  assumes "lemma_to_shortest_form vocab l = Some form"
  shows "lemma_to_sentence_info (merge_tokens vocab steps) l = lemma_to_sentence_info vocab l
       \<and> (\<exists>form'. lemma_to_shortest_form (merge_tokens vocab steps) l = Some form'
              \<and> (form' = form \<or> length form' < length form))"
  using assms
proof (induction steps arbitrary: vocab form)
  case Nil
  then show ?case by (simp add: merge_tokens_def)
next
  case (Cons step steps)
  from merge_token_keeps [OF Cons.prems, of step] obtain f1 where
    i1: "lemma_to_sentence_info (merge_token vocab step) l = lemma_to_sentence_info vocab l"
    and s1: "lemma_to_shortest_form (merge_token vocab step) l = Some f1"
    and l1: "f1 = form \<or> length f1 < length form" by blast
  from Cons.IH [OF s1] obtain f2 where
    i2: "lemma_to_sentence_info (merge_tokens (merge_token vocab step) steps) l
           = lemma_to_sentence_info (merge_token vocab step) l"
    and s2: "lemma_to_shortest_form (merge_tokens (merge_token vocab step) steps) l = Some f2"
    and l2: "f2 = f1 \<or> length f2 < length f1" by blast
  from l1 l2 have "f2 = form \<or> length f2 < length form" by auto
  with i1 i2 s2 show ?case by (simp add: merge_tokens_def)
qed

theorem vocabulary_location_fixed_form_shrinks_witness:
  "lemma_to_shortest_form
     (merge_token empty_vocabulary ([''gehen''], ''gegangen'', (0, ''Er ist gegangen'')))
     ''gehen'' = Some ''gegangen''
   \<and> lemma_to_sentence_info
       (merge_tokens (merge_token empty_vocabulary ([''gehen''], ''gegangen'', (0, ''Er ist gegangen'')))
          [([''gehen''], ''ging'', (1, ''Er ging'')), ([''gehen''], ''gehen'', (2, ''Wir gehen''))])
       ''gehen'' = Some (0, ''Er ist gegangen'')
   \<and> lemma_to_shortest_form
       (merge_tokens (merge_token empty_vocabulary ([''gehen''], ''gegangen'', (0, ''Er ist gegangen'')))
          [([''gehen''], ''ging'', (1, ''Er ging'')), ([''gehen''], ''gehen'', (2, ''Wir gehen''))])
       ''gehen'' = Some ''ging''"
  using vocabulary_location_fixed_form_shrinks
          [of "merge_token empty_vocabulary ([''gehen''], ''gegangen'', (0, ''Er ist gegangen''))"
              "''gehen''" "''gegangen''"
              "[([''gehen''], ''ging'', (1, ''Er ging'')), ([''gehen''], ''gehen'', (2, ''Wir gehen''))]"]
  by (simp add: merge_tokens_def merge_token_def merge_lemma_def empty_vocabulary_def)

section \<open>The candidates of a token: fallback, errors, and the case of the components\<close>

lemmas example_defs =
  example_env_def example_nlp_def example_dissect_def german_options_def word_token_def
  no_rules_def

lemmas pipeline_defs =
  lemmas_for_current_token_def split_token_def token_base_lemma_def
  default_lemma_and_form_def hyphen_split_applies_def automaton_split_applies_def
  is_special_token_def gcs_split_components_def gcs_part_lemmas_def hyphen_part_lemmas_def
  lemmatize_compound_part_def correct_spacy_lemma_def format_lemma_capitalization_def
  format_gcs_component_case_def get_overridden_lemma_for_word_def
  get_overridden_lemma_for_compound_part_def find_matching_override_in_context_def
  noun_tags_def isupper_def strip_def strip_where_def split_char_def char_isspace_def



lemma split_token_automaton:
  assumes "\<not> hyphen_split_applies opts token" and "automaton_split_applies opts token"
    and "gcs_split_components env opts token = Inr comps" and "length comps > 1"
  shows "split_token env opts dict rules s base token =
           (True, (if de_gcs_preserve_compound_word opts then [base] else [])
                  @ gcs_part_lemmas env dict rules s token comps)"
  using assms by (simp add: split_token_def Let_def)





text \<open>
  C6. When the automaton branch is the one taken and a call of the decomposer raises, the
  candidates of the token are exactly the base lemma: nothing of the decomposition is
  kept, and the token is handled as one that was not split.
\<close>

theorem decomposer_error_falls_back:
  assumes "\<not> hyphen_split_applies opts token" and "automaton_split_applies opts token"
    and "gcs_split_components env opts token = Inl e"
  shows "lemmas_for_current_token env opts dict rules s particle token
           = [token_base_lemma env opts dict rules s particle token]"
  using assms by (simp add: lemmas_for_current_token_def split_token_def Let_def)

theorem decomposer_error_falls_back_witness:
  "comp_split_dissect example_env ''Hausboot'' True True False = Inr [''Haus'', ''Boot'']
   \<and> gcs_split_components example_env (german_options\<lparr>de_gcs_combine_noun_modes := True\<rparr>)
       (word_token ''Hausboot'' ''Hausboot'' ''NOUN'' []) = Inl (Exception ''dissect'')
   \<and> lemmas_for_current_token example_env (german_options\<lparr>de_gcs_combine_noun_modes := True\<rparr>)
       {} no_rules ''Das Hausboot'' None (word_token ''Hausboot'' ''Hausboot'' ''NOUN'' [])
       = [''Hausboot'']"
  using decomposer_error_falls_back [of "german_options\<lparr>de_gcs_combine_noun_modes := True\<rparr>"
          "word_token ''Hausboot'' ''Hausboot'' ''NOUN'' []" example_env "Exception ''dissect''"
          "{}" no_rules "''Das Hausboot''" None]
  by (simp add: pipeline_defs example_defs char_eval)

lemma lower_no_upper: "list_all (\<lambda>c. \<not> char_isupper c) (lower s)"
  by (induction s) (auto simp: lower_def char_lower_def char_isupper_def)

lemma format_first: "take 1 (format_gcs_component_case x) = take 1 x"
  by (cases x) (auto simp: format_gcs_component_case_def)

lemma format_rest: "drop 1 (format_gcs_component_case x) = lower (drop 1 x)"
  by (cases x) (auto simp: format_gcs_component_case_def lower_def)

lemma format_rest_no_upper:
  "list_all (\<lambda>c. \<not> char_isupper c) (drop 1 (format_gcs_component_case x))"
  by (simp only: format_rest lower_no_upper)

lemma gcs_part_lemmas_formatted:
  assumes "set (py_set_order env comps) \<subseteq> set comps"
    and "x \<in> set (gcs_part_lemmas env dict rules s token comps)"
  shows "\<exists>raw \<in> set comps.
           x = format_gcs_component_case (resolved_component env dict rules s token raw)"
  using assms
  by (auto simp: gcs_part_lemmas_def resolved_component_def Let_def split: if_splits)

text \<open>
  C5, as the code has it. For a token split by the automaton mechanism the candidates
  are the base lemma, when it is preserved, and the lemmas of the components; each of
  these is the resolved lemma of a component with its first character unchanged and the
  rest in lower case, so that no character after the first is an upper case letter. The
  first character is not put in upper case.
\<close>

theorem automaton_component_case:
  assumes "\<not> hyphen_split_applies opts token" and "automaton_split_applies opts token"
    and "gcs_split_components env opts token = Inr comps" and "length comps > 1"
    and "set_order_ok (py_set_order env)"
  shows "lemmas_for_current_token env opts dict rules s particle token =
           (if de_gcs_preserve_compound_word opts
            then [token_base_lemma env opts dict rules s particle token] else [])
           @ gcs_part_lemmas env dict rules s token comps
       \<and> (\<forall>x \<in> set (gcs_part_lemmas env dict rules s token comps).
            \<exists>raw \<in> set comps.
              x = format_gcs_component_case (resolved_component env dict rules s token raw)
              \<and> take 1 x = take 1 (resolved_component env dict rules s token raw)
              \<and> drop 1 x = lower (drop 1 (resolved_component env dict rules s token raw))
              \<and> list_all (\<lambda>c. \<not> char_isupper c) (drop 1 x))"
proof (intro conjI ballI)
  show "lemmas_for_current_token env opts dict rules s particle token =
           (if de_gcs_preserve_compound_word opts
            then [token_base_lemma env opts dict rules s particle token] else [])
           @ gcs_part_lemmas env dict rules s token comps"
    using split_token_automaton [OF assms(1-4)]
    by (simp add: lemmas_for_current_token_def Let_def)
next
  fix x assume x: "x \<in> set (gcs_part_lemmas env dict rules s token comps)"
  from assms(5) have "set (py_set_order env comps) \<subseteq> set comps"
    by (simp add: set_order_ok_def)
  from gcs_part_lemmas_formatted [OF this x] obtain raw where
    "raw \<in> set comps"
    "x = format_gcs_component_case (resolved_component env dict rules s token raw)"
    by blast
  then show "\<exists>raw \<in> set comps.
              x = format_gcs_component_case (resolved_component env dict rules s token raw)
              \<and> take 1 x = take 1 (resolved_component env dict rules s token raw)
              \<and> drop 1 x = lower (drop 1 (resolved_component env dict rules s token raw))
              \<and> list_all (\<lambda>c. \<not> char_isupper c) (drop 1 x)"
    using format_first format_rest format_rest_no_upper by blast
qed

lemma set_order_ok_remdups: "set_order_ok remdups"
  by (simp add: set_order_ok_def)

theorem automaton_component_case_witness:
  "\<not> hyphen_split_applies german_options (word_token ''Hausboot'' ''Hausboot'' ''NOUN'' [])
   \<and> automaton_split_applies german_options (word_token ''Hausboot'' ''Hausboot'' ''NOUN'' [])
   \<and> gcs_split_components example_env german_options
       (word_token ''Hausboot'' ''Hausboot'' ''NOUN'' []) = Inr [''Haus'', ''Boot'']
   \<and> set_order_ok (py_set_order example_env)
   \<and> lemmas_for_current_token example_env german_options {} no_rules ''Das Hausboot'' None
       (word_token ''Hausboot'' ''Hausboot'' ''NOUN'' []) = [''Haus'', ''Boot'']"
  using automaton_component_case [of german_options
          "word_token ''Hausboot'' ''Hausboot'' ''NOUN'' []" example_env "[''Haus'', ''Boot'']"
          "{}" no_rules "''Das Hausboot''" None]
        set_order_ok_remdups
  by (simp add: pipeline_defs example_defs char_eval)

text \<open>
  C5 as stated fails: the component \<open>Laufen\<close> of \<open>Weglaufen\<close> is lemmatized as the verb
  \<open>laufen\<close>, and the candidate that is added starts with a lower case letter.
\<close>

theorem component_lemma_not_capitalized_counterexample:
  "automaton_split_applies german_options (word_token ''Weglaufen'' ''Weglaufen'' ''NOUN'' [])
   \<and> \<not> hyphen_split_applies german_options (word_token ''Weglaufen'' ''Weglaufen'' ''NOUN'' [])
   \<and> lemmas_for_current_token example_env german_options {} no_rules ''Sie mag Weglaufen nicht''
       None (word_token ''Weglaufen'' ''Weglaufen'' ''NOUN'' []) = [''Weg'', ''laufen'']
   \<and> \<not> starts_upper ''laufen''"
  by (simp add: pipeline_defs example_defs char_eval)

section \<open>The deduplication\<close>

lemma add_variant_keys:
  "map fst (add_variant k v g) = (if k \<in> set (map fst g) then map fst g else map fst g @ [k])"
  by (induction k v g rule: add_variant.induct) (auto simp: rev_image_eqI)

lemma add_variant_members:
  "members (add_variant k v g) = insert v (members g)"
  by (induction k v g rule: add_variant.induct) auto

lemma add_variant_new: "k \<notin> set (map fst g) \<Longrightarrow> add_variant k v g = g @ [(k, [v])]"
  by (induction k v g rule: add_variant.induct) auto

lemma add_variant_entry:
  "(k', vs) \<in> set (add_variant k v g) \<Longrightarrow>
     (k', vs) \<in> set g \<or> (k' = k \<and> (vs = [v] \<or> (\<exists>ws. (k, ws) \<in> set g \<and> vs = ws @ [v])))"
  by (induction k v g rule: add_variant.induct) (auto split: if_splits)

lemma add_variant_ok:
  assumes "groups_ok g" and "v \<noteq> []" and "lower v = k"
  shows "groups_ok (add_variant k v g)"
proof -
  have d: "distinct (map fst (add_variant k v g))"
    using assms(1) by (auto simp: add_variant_keys groups_ok_def)
  have "vs \<noteq> [] \<and> (\<forall>w \<in> set vs. w \<noteq> [] \<and> lower w = k')"
    if "(k', vs) \<in> set (add_variant k v g)" for k' vs
    using add_variant_entry [OF that] assms by (fastforce simp: groups_ok_def)
  with d show ?thesis by (auto simp: groups_ok_def)
qed

lemma group_by_lowercase_foldl: "group_by_lowercase xs = foldl group_step [] xs"
  by (simp add: group_by_lowercase_def group_step_def [abs_def])

lemma group_step_ok: "groups_ok g \<Longrightarrow> groups_ok (group_step g x)"
  by (simp add: group_step_def add_variant_ok)

lemma foldl_group_step_ok: "groups_ok g \<Longrightarrow> groups_ok (foldl group_step g xs)"
  by (induction xs arbitrary: g) (simp_all add: group_step_ok)

lemma foldl_group_step_members:
  "members (foldl group_step g xs)
     = members g \<union> {x \<in> set xs. x \<noteq> []}"
proof (induction xs arbitrary: g)
  case Nil
  then show ?case by simp
next
  case (Cons x xs)
  have "members (group_step g x)
          = members g \<union> (if x = [] then {} else {x})"
    by (simp add: group_step_def add_variant_members)
  with Cons.IH [of "group_step g x"] show ?case by auto
qed

lemma group_by_lowercase_ok: "groups_ok (group_by_lowercase xs)"
proof -
  have "groups_ok []" by (simp add: groups_ok_def)
  then show ?thesis unfolding group_by_lowercase_foldl by (rule foldl_group_step_ok)
qed

lemma group_by_lowercase_members:
  "members (group_by_lowercase xs) = {x \<in> set xs. x \<noteq> []}"
  by (simp add: group_by_lowercase_foldl foldl_group_step_members)

lemma member_group:
  "x \<in> members g \<longleftrightarrow> (\<exists>k vs. (k, vs) \<in> set g \<and> x \<in> set vs)"
proof (induction g)
  case Nil
  show ?case by simp
next
  case (Cons a g)
  obtain k vs where a: "a = (k, vs)" by (cases a)
  have "x \<in> members (a # g) \<longleftrightarrow> x \<in> set vs \<or> x \<in> members g"
    by (simp add: a)
  also have "\<dots> \<longleftrightarrow> x \<in> set vs \<or> (\<exists>k vs. (k, vs) \<in> set g \<and> x \<in> set vs)"
    by (simp only: Cons.IH)
  also have "\<dots> \<longleftrightarrow> (\<exists>k' vs'. (k', vs') \<in> set (a # g) \<and> x \<in> set vs')"
    unfolding a by (simp only: set_simps insert_iff prod.inject) blast
  finally show ?case .
qed


lemma starts_upper_nonempty: "starts_upper v \<Longrightarrow> v \<noteq> []"
  by (cases v) auto

lemma choose_variant_single:
  assumes "set_order_ok so" and "vs \<noteq> []"
  shows "\<exists>r. choose_variant so vs = [r] \<and> r \<in> set vs
            \<and> ((\<exists>v \<in> set vs. starts_upper v) \<longrightarrow> starts_upper r)"
proof -
  from assms have s: "set (so vs) = set vs"
    by (auto simp: set_order_ok_def)
  with assms(2) have ne: "so vs \<noteq> []"
    by (metis set_empty)
  show ?thesis
  proof (cases "find starts_upper (so vs)")
    case None
    then have "\<not> (\<exists>v \<in> set vs. starts_upper v)"
      using s by (auto simp: find_None_iff)
    moreover from ne obtain r rest where "so vs = r # rest" by (cases "so vs") auto
    ultimately show ?thesis using None s by (auto simp: choose_variant_def)
  next
    case (Some r)
    then have "starts_upper r" "r \<in> set (so vs)"
      by (auto simp: find_Some_iff in_set_conv_nth)
    with Some s show ?thesis
      by (auto simp: choose_variant_def dest: starts_upper_nonempty)
  qed
qed

lemma dedup_representatives:
  assumes "set_order_ok so" and "\<forall>(k, vs) \<in> set g. vs \<noteq> []"
  shows "concat (map (\<lambda>(k, vs). choose_variant so vs) g) = map (representative so) g"
  using assms(2)
proof (induction g)
  case Nil
  then show ?case by simp
next
  case (Cons a g)
  obtain k vs where a: "a = (k, vs)" by (cases a)
  with Cons.prems have "vs \<noteq> []" by auto
  from choose_variant_single [OF assms(1) this] obtain r where "choose_variant so vs = [r]" by blast
  with Cons a show ?case by (simp add: representative_def)
qed

lemma representative_props:
  assumes "set_order_ok so" and "groups_ok g" and "(k, vs) \<in> set g"
  shows "representative so (k, vs) \<in> set vs" and "lower (representative so (k, vs)) = k"
    and "representative so (k, vs) \<noteq> []"
    and "(\<exists>v \<in> set vs. starts_upper v) \<Longrightarrow> starts_upper (representative so (k, vs))"
proof -
  from assms(2,3) have ne: "vs \<noteq> []" and all: "\<forall>v \<in> set vs. v \<noteq> [] \<and> lower v = k"
    by (auto simp: groups_ok_def)
  from choose_variant_single [OF assms(1) ne] obtain r where
    r: "choose_variant so vs = [r]" "r \<in> set vs" "(\<exists>v \<in> set vs. starts_upper v) \<longrightarrow> starts_upper r"
    by blast
  then have e: "representative so (k, vs) = r" by (simp add: representative_def)
  from e r all show "representative so (k, vs) \<in> set vs" "lower (representative so (k, vs)) = k"
    "representative so (k, vs) \<noteq> []"
    "(\<exists>v \<in> set vs. starts_upper v) \<Longrightarrow> starts_upper (representative so (k, vs))"
    by auto
qed

lemma dedup_eq:
  assumes "set_order_ok so"
  shows "deduplicate_lemmas so xs = map (representative so) (group_by_lowercase xs)"
  unfolding deduplicate_lemmas_def
  using group_by_lowercase_ok [of xs]
  by (intro dedup_representatives [OF assms]) (auto simp: groups_ok_def)

lemma dedup_lower_keys:
  assumes "set_order_ok so"
  shows "map lower (deduplicate_lemmas so xs) = map fst (group_by_lowercase xs)"
proof -
  have "lower (representative so g) = fst g" if "g \<in> set (group_by_lowercase xs)" for g
    using representative_props(2) [OF assms group_by_lowercase_ok, of "fst g" "snd g" xs] that
    by simp
  then show ?thesis by (simp add: dedup_eq [OF assms])
qed

lemma dedup_distinct_lower:
  assumes "set_order_ok so"
  shows "distinct (map lower (deduplicate_lemmas so xs))"
  using group_by_lowercase_ok [of xs] by (simp add: dedup_lower_keys [OF assms] groups_ok_def)

lemma dedup_subset:
  assumes "set_order_ok so"
  shows "set (deduplicate_lemmas so xs) \<subseteq> {x \<in> set xs. x \<noteq> []}"
proof
  fix r assume "r \<in> set (deduplicate_lemmas so xs)"
  then obtain k vs where g: "(k, vs) \<in> set (group_by_lowercase xs)" and r: "r = representative so (k, vs)"
    by (auto simp: dedup_eq [OF assms])
  from representative_props(1) [OF assms group_by_lowercase_ok g] r have "r \<in> set vs" by simp
  with g have "r \<in> members (group_by_lowercase xs)"
    unfolding member_group by blast
  then show "r \<in> {x \<in> set xs. x \<noteq> []}" by (simp only: group_by_lowercase_members)
qed

lemma dedup_classes:
  assumes "set_order_ok so"
  shows "lower ` set (deduplicate_lemmas so xs) = lower ` {x \<in> set xs. x \<noteq> []}"
proof
  show "lower ` set (deduplicate_lemmas so xs) \<subseteq> lower ` {x \<in> set xs. x \<noteq> []}"
    using dedup_subset [OF assms] by blast
next
  show "lower ` {x \<in> set xs. x \<noteq> []} \<subseteq> lower ` set (deduplicate_lemmas so xs)"
  proof
    fix k assume "k \<in> lower ` {x \<in> set xs. x \<noteq> []}"
    then obtain x where x: "x \<in> set xs" "x \<noteq> []" "k = lower x" by auto
    then have "x \<in> members (group_by_lowercase xs)"
      by (simp add: group_by_lowercase_members)
    then obtain k' vs where g: "(k', vs) \<in> set (group_by_lowercase xs)" "x \<in> set vs"
      unfolding member_group by blast
    with group_by_lowercase_ok [of xs] have "lower x = k'" by (auto simp: groups_ok_def)
    with g x have "k \<in> set (map fst (group_by_lowercase xs))" by force
    then have "k \<in> set (map lower (deduplicate_lemmas so xs))"
      by (simp only: dedup_lower_keys [OF assms])
    then show "k \<in> lower ` set (deduplicate_lemmas so xs)" by simp
  qed
qed

lemma dedup_prefers_upper:
  assumes "set_order_ok so" and "r \<in> set (deduplicate_lemmas so xs)"
    and "x \<in> set xs" and "lower x = lower r" and "starts_upper x"
  shows "starts_upper r"
proof -
  from assms(2) obtain k vs where g: "(k, vs) \<in> set (group_by_lowercase xs)"
    and r: "r = representative so (k, vs)"
    by (auto simp: dedup_eq [OF assms(1)])
  have ok: "groups_ok (group_by_lowercase xs)" by (rule group_by_lowercase_ok)
  from representative_props(2) [OF assms(1) ok g] r have kr: "lower r = k" by simp
  from assms(3,5) have "x \<in> {x \<in> set xs. x \<noteq> []}" by (auto dest: starts_upper_nonempty)
  then have "x \<in> members (group_by_lowercase xs)"
    by (simp only: group_by_lowercase_members)
  then obtain k' vs' where g': "(k', vs') \<in> set (group_by_lowercase xs)" "x \<in> set vs'"
    unfolding member_group by blast
  with ok have "lower x = k'" by (auto simp: groups_ok_def)
  with kr assms(4) have "k' = k" by simp
  with g g' ok have "vs' = vs"
    by (auto simp: groups_ok_def dest: eq_key_imp_eq_value)
  with g' assms(5) have "\<exists>v \<in> set vs. starts_upper v" by auto
  from representative_props(4) [OF assms(1) ok g this] r show ?thesis by simp
qed


lemma foldl_group_step_fresh:
  assumes "distinct (map lower ys)" and "[] \<notin> set ys"
    and "lower ` set ys \<inter> set (map fst g) = {}"
  shows "foldl group_step g ys = g @ map (\<lambda>r. (lower r, [r])) ys"
  using assms
proof (induction ys arbitrary: g)
  case Nil
  then show ?case by simp
next
  case (Cons y ys)
  from Cons.prems have y: "y \<noteq> []" "lower y \<notin> set (map fst g)" by auto
  then have s: "group_step g y = g @ [(lower y, [y])]"
    by (simp add: group_step_def add_variant_new)
  from Cons.prems have "lower ` set ys \<inter> set (map fst (g @ [(lower y, [y])])) = {}"
    by auto
  with Cons.IH [of "g @ [(lower y, [y])]"] Cons.prems s show ?case by simp
qed

lemma choose_variant_singleton:
  assumes "set_order_ok so" and "r \<noteq> []"
  shows "choose_variant so [r] = [r]"
  using choose_variant_single [OF assms(1), of "[r]"] by auto

lemma dedup_fixed:
  assumes "set_order_ok so" and "distinct (map lower ys)" and "[] \<notin> set ys"
  shows "deduplicate_lemmas so ys = ys"
proof -
  have g: "group_by_lowercase ys = map (\<lambda>r. (lower r, [r])) ys"
    using foldl_group_step_fresh [OF assms(2,3), of "[]"] by (simp add: group_by_lowercase_foldl)
  have "concat (map (\<lambda>r. choose_variant so [r]) zs) = zs" if "[] \<notin> set zs" for zs
    using that by (induction zs) (auto simp: choose_variant_singleton [OF assms(1)])
  with assms(3) show ?thesis
    by (simp add: deduplicate_lemmas_def g comp_def)
qed

lemma dedup_apfel:
  assumes "set_order_ok so"
  shows "deduplicate_lemmas so [''apfel'', ''Apfel''] = [''Apfel'']"
    and "deduplicate_lemmas so [''Apfel'', ''apfel''] = [''Apfel'']"
proof -
  have u: "starts_upper ''Apfel''" "\<not> starts_upper ''apfel''" by (simp_all add: char_isupper_def)
  have l: "lower ''Apfel'' = ''apfel''" "lower ''apfel'' = ''apfel''"
    by (simp_all add: char_eval)
  have g1: "group_by_lowercase [''apfel'', ''Apfel''] = [(''apfel'', [''apfel'', ''Apfel''])]"
    by (simp add: group_by_lowercase_def l)
  have g2: "group_by_lowercase [''Apfel'', ''apfel''] = [(''apfel'', [''Apfel'', ''apfel''])]"
    by (simp add: group_by_lowercase_def l)
  from choose_variant_single [OF assms, of "[''apfel'', ''Apfel'']"] u
  have c1: "choose_variant so [''apfel'', ''Apfel''] = [''Apfel'']" by auto
  from choose_variant_single [OF assms, of "[''Apfel'', ''apfel'']"] u
  have c2: "choose_variant so [''Apfel'', ''apfel''] = [''Apfel'']" by auto
  show "deduplicate_lemmas so [''apfel'', ''Apfel''] = [''Apfel'']"
    by (simp add: deduplicate_lemmas_def g1 c1)
  show "deduplicate_lemmas so [''Apfel'', ''apfel''] = [''Apfel'']"
    by (simp add: deduplicate_lemmas_def g2 c2)
qed

text \<open>
  C7, as the code has it. Empty candidates are dropped. The non-empty candidates are
  grouped by their lowercased form and the output holds exactly one member of every
  group: no two output lemmas have the same lowercased form, the lowercased forms of the
  output are those of the non-empty candidates, and every output lemma is a candidate.
  When a candidate of the class of an output lemma starts with an upper case letter, so
  does the output lemma. The candidates \<open>apfel\<close> and \<open>Apfel\<close> give \<open>[Apfel]\<close>, in either
  order and for every iteration order of the set.
\<close>

theorem deduplicate_lemmas_one_per_class:
  assumes "set_order_ok set_order"
  shows "distinct (map lower (deduplicate_lemmas set_order xs))
       \<and> lower ` set (deduplicate_lemmas set_order xs) = lower ` {x \<in> set xs. x \<noteq> []}
       \<and> set (deduplicate_lemmas set_order xs) \<subseteq> {x \<in> set xs. x \<noteq> []}
       \<and> (\<forall>r \<in> set (deduplicate_lemmas set_order xs). \<forall>x \<in> set xs.
             lower x = lower r \<and> starts_upper x \<longrightarrow> starts_upper r)
       \<and> deduplicate_lemmas set_order [''apfel'', ''Apfel''] = [''Apfel'']
       \<and> deduplicate_lemmas set_order [''Apfel'', ''apfel''] = [''Apfel'']"
  using dedup_distinct_lower [OF assms] dedup_classes [OF assms] dedup_subset [OF assms]
    dedup_prefers_upper [OF assms] dedup_apfel [OF assms]
  by blast

theorem deduplicate_lemmas_one_per_class_witness:
  "set_order_ok remdups
   \<and> deduplicate_lemmas remdups
       [''apfel'', ''Birne'', ''Apfel'', ''kiwi'', ''APFEL'', ''birne'']
       = [''Apfel'', ''Birne'', ''kiwi'']"
  using deduplicate_lemmas_one_per_class [OF set_order_ok_remdups,
          of "[''apfel'', ''Birne'', ''Apfel'', ''kiwi'', ''APFEL'', ''birne'']"]
        set_order_ok_remdups
  by (simp add: deduplicate_lemmas_def group_by_lowercase_def choose_variant_def char_eval)

text \<open>
  C7 as stated fails: the class of the empty candidate has no representative in the
  output.
\<close>

theorem empty_candidate_dropped_counterexample:
  "deduplicate_lemmas remdups [[]] = []
   \<and> deduplicate_lemmas remdups [[], ''Haus''] = [''Haus'']"
  by (simp add: deduplicate_lemmas_def group_by_lowercase_def choose_variant_def char_eval)

text \<open>
  C8. Deduplication of the output of a deduplication returns that output, whatever the
  iteration orders of the sets in the two runs.
\<close>

theorem deduplicate_lemmas_idempotent:
  assumes "set_order_ok so" and "set_order_ok so'"
  shows "deduplicate_lemmas so' (deduplicate_lemmas so xs) = deduplicate_lemmas so xs"
proof (rule dedup_fixed [OF assms(2)])
  show "distinct (map lower (deduplicate_lemmas so xs))"
    by (rule dedup_distinct_lower [OF assms(1)])
  show "[] \<notin> set (deduplicate_lemmas so xs)"
    using dedup_subset [OF assms(1), of xs] by auto
qed

theorem deduplicate_lemmas_idempotent_witness:
  "set_order_ok remdups
   \<and> deduplicate_lemmas remdups
       (deduplicate_lemmas remdups [''apfel'', ''Birne'', [], ''Apfel'', ''kiwi'', ''birne''])
       = [''Apfel'', ''Birne'', ''kiwi'']
   \<and> deduplicate_lemmas remdups [''apfel'', ''Birne'', [], ''Apfel'', ''kiwi'', ''birne'']
       = [''Apfel'', ''Birne'', ''kiwi'']"
  using deduplicate_lemmas_idempotent [OF set_order_ok_remdups set_order_ok_remdups,
          of "[''apfel'', ''Birne'', [], ''Apfel'', ''kiwi'', ''birne'']"]
        set_order_ok_remdups
  by (simp add: deduplicate_lemmas_def group_by_lowercase_def choose_variant_def char_eval)

end
